theory Spec2Isabelle
  imports Main "HOL-Library.AList"
begin

section \<open>Values read from and written to settings.json\<close>

text \<open>
  \<open>wt_profile.py\<close> keeps no data of its own: every operation of \<open>WtHandler\<close> parses the
  settings file with \<open>json.loads\<close>, works on the Python value it gets, and (for a mutation)
  writes \<open>json.dumps\<close> of the changed value back. The values are therefore what
  \<open>json.loads\<close> produces: \<open>None\<close>, booleans, numbers, strings, lists and dicts with string
  keys. A dict keeps its insertion order and never holds a key twice, so it is an
  association list; \<open>json.dumps\<close> writes the pairs in that order.

  Numbers are restricted to integers (no claim depends on a number); \<open>dumps\<close> followed by
  \<open>loads\<close> is the identity on such values, so the file is represented by the value it
  parses to.
\<close>

datatype json =
    JNull
  | JBool bool
  | JNum int
  | JStr string
  | JArr "json list"
  | JObj "(string \<times> json) list"

text \<open>The exceptions the code can raise, each one a value.\<close>

datatype error =
    Exception string
  | JSONDecodeError
  | KeyError json
  | TypeError
  | AttributeError
  | IndexError

text \<open>
  Python's \<open>==\<close> on these values: \<open>bool\<close> is a subclass of \<open>int\<close> (\<open>True == 1\<close>), lists compare
  element by element, dicts compare as mappings (same number of keys, and every key of the
  left one is in the right one with an equal value), values of different kinds are unequal.
\<close>

fun py_eq :: "json \<Rightarrow> json \<Rightarrow> bool"
  and py_eq_list :: "json list \<Rightarrow> json list \<Rightarrow> bool"
  and py_eq_items :: "(string \<times> json) list \<Rightarrow> (string \<times> json) list \<Rightarrow> bool"
where
  "py_eq JNull JNull = True"
| "py_eq (JBool a) (JBool b) = (a = b)"
| "py_eq (JBool a) (JNum n) = ((if a then 1 else 0) = n)"
| "py_eq (JNum m) (JBool b) = (m = (if b then 1 else 0))"
| "py_eq (JNum m) (JNum n) = (m = n)"
| "py_eq (JStr s) (JStr t) = (s = t)"
| "py_eq (JArr xs) (JArr ys) = py_eq_list xs ys"
| "py_eq (JObj a) (JObj b) = (length a = length b \<and> py_eq_items a b)"
| "py_eq _ _ = False"
| "py_eq_list [] [] = True"
| "py_eq_list (x # xs) (y # ys) = (py_eq x y \<and> py_eq_list xs ys)"
| "py_eq_list _ _ = False"
| "py_eq_items [] b = True"
| "py_eq_items ((k, v) # a) b =
     ((case map_of b k of None \<Rightarrow> False | Some w \<Rightarrow> py_eq v w) \<and> py_eq_items a b)"

text \<open>Truthiness, as \<open>if x:\<close> and \<open>not x\<close> test it.\<close>

fun truthy :: "json \<Rightarrow> bool" where
  "truthy JNull = False"
| "truthy (JBool b) = b"
| "truthy (JNum n) = (n \<noteq> 0)"
| "truthy (JStr s) = (s \<noteq> [])"
| "truthy (JArr xs) = (xs \<noteq> [])"
| "truthy (JObj kvs) = (kvs \<noteq> [])"

text \<open>\<open>x[key]\<close> with a string key: only a dict accepts it, and a missing key raises.\<close>

fun getitem :: "json \<Rightarrow> string \<Rightarrow> error + json" where
  "getitem (JObj kvs) k =
     (case map_of kvs k of None \<Rightarrow> Inl (KeyError (JStr k)) | Some v \<Rightarrow> Inr v)"
| "getitem _ k = Inl TypeError"

text \<open>\<open>x.get(key)\<close>: a dict answers \<open>None\<close> for a missing key; nothing else has \<open>get\<close>.\<close>

fun py_get :: "json \<Rightarrow> string \<Rightarrow> error + json" where
  "py_get (JObj kvs) k = Inr (case map_of kvs k of None \<Rightarrow> JNull | Some v \<Rightarrow> v)"
| "py_get _ k = Inl AttributeError"

text \<open>
  \<open>x[key] = v\<close> on a dict: an existing key keeps its place, a new key goes to the end.
\<close>

fun setitem :: "json \<Rightarrow> string \<Rightarrow> json \<Rightarrow> error + json" where
  "setitem (JObj kvs) k v = Inr (JObj (AList.update k v kvs))"
| "setitem _ k v = Inl TypeError"

text \<open>
  What a \<open>for\<close> loop iterates over: the items of a list, the keys of a dict, the
  characters of a string; anything else is not iterable.
\<close>

fun py_iter :: "json \<Rightarrow> error + json list" where
  "py_iter (JArr xs) = Inr xs"
| "py_iter (JObj kvs) = Inr (map (\<lambda>kv. JStr (fst kv)) kvs)"
| "py_iter (JStr s) = Inr (map (\<lambda>c. JStr [c]) s)"
| "py_iter _ = Inl TypeError"

text \<open>\<open>xs + [x]\<close>: defined when the left operand is a list.\<close>

fun py_add_list :: "json \<Rightarrow> json list \<Rightarrow> error + json" where
  "py_add_list (JArr xs) ys = Inr (JArr (xs @ ys))"
| "py_add_list _ ys = Inl TypeError"

text \<open>
  \<open>x.pop(index)\<close> with \<open>index\<close> being \<open>None\<close> or a number \<open>\<ge> 0\<close>: a list gives the removed
  item and the shortened list, and raises for \<open>None\<close> and for a position past its end. A
  dict's \<open>pop\<close> takes a key (neither \<open>None\<close> nor a number is a key here), and nothing
  else has \<open>pop\<close>.
\<close>

fun py_pop :: "json \<Rightarrow> nat option \<Rightarrow> error + (json \<times> json)" where
  "py_pop (JArr xs) (Some i) =
     (if i < length xs then Inr (xs ! i, JArr (take i xs @ drop (Suc i) xs))
      else Inl IndexError)"
| "py_pop (JArr xs) None = Inl TypeError"
| "py_pop (JObj kvs) index =
     Inl (KeyError (case index of None \<Rightarrow> JNull | Some i \<Rightarrow> JNum (int i)))"
| "py_pop _ index = Inl AttributeError"

text \<open>\<open>x.copy()\<close>: the shallow copy of a dict or a list; nothing else has \<open>copy\<close>.\<close>

fun py_copy :: "json \<Rightarrow> error + json" where
  "py_copy (JObj kvs) = Inr (JObj kvs)"
| "py_copy (JArr xs) = Inr (JArr xs)"
| "py_copy _ = Inl AttributeError"

section \<open>Profiles\<close>

text \<open>
  \<open>WtProfile\<close> is the typed dict the \<open>add\<close> command builds: \<open>hidden\<close> has the type
  \<open>Literal[False]\<close>, \<open>icon\<close> is the one key that may be absent. \<open>entry\<close> is the dict in the
  key order of the \<open>add\<close> command.
\<close>

record WtProfile =
  name :: string
  guid :: string
  commandline :: string
  icon :: "string option"

definition entry :: "WtProfile \<Rightarrow> json" where
  "entry P =
     JObj ([(''name'', JStr (name P)),
            (''commandline'', JStr (commandline P)),
            (''guid'', JStr (guid P)),
            (''hidden'', JBool False)]
           @ (case icon P of None \<Rightarrow> [] | Some i \<Rightarrow> [(''icon'', JStr i)]))"

section \<open>The settings file\<close>

text \<open>
  A \<open>WtHandler\<close> has one attribute, the path of settings.json, and every operation reads
  and writes the file at that path only. The state an operation runs in is that file: its
  text is either not valid JSON or the value it parses to, and \<open>writes\<close> counts the calls
  of \<open>write_text\<close>, so that "no write is performed" is different from "the same text is
  written again". A write is taken to succeed.
\<close>

datatype content = Malformed | Doc json

record fs =
  contents :: content
  writes :: nat

definition write_text :: "fs \<Rightarrow> json \<Rightarrow> fs" where
  "write_text st d = \<lparr>contents = Doc d, writes = Suc (writes st)\<rparr>"

text \<open>The property \<open>data\<close>: \<open>loads(self.settings.read_text())\<close>, parsed afresh at every use.\<close>

definition data :: "fs \<Rightarrow> error + json" where
  "data st = (case contents st of Malformed \<Rightarrow> Inl JSONDecodeError | Doc d \<Rightarrow> Inr d)"

text \<open>The property \<open>profiles\<close>: \<open>self.data["profiles"]["list"]\<close>.\<close>

definition profiles :: "fs \<Rightarrow> error + json" where
  "profiles st =
     (case data st of Inl e \<Rightarrow> Inl e
      | Inr d \<Rightarrow>
          (case getitem d ''profiles'' of Inl e \<Rightarrow> Inl e
           | Inr pr \<Rightarrow> getitem pr ''list''))"

text \<open>
  \<open>data["profiles"]["list"] = l\<close>. The nested dict is changed in place; the value loaded
  from the file is a tree (no object is reachable twice), so the change shows in \<open>data\<close>
  at that one place, which is the nested dict written back under its key.
\<close>

definition set_list :: "json \<Rightarrow> json \<Rightarrow> error + json" where
  "set_list d l =
     (case getitem d ''profiles'' of Inl e \<Rightarrow> Inl e
      | Inr pr \<Rightarrow>
          (case setitem pr ''list'' l of Inl e \<Rightarrow> Inl e
           | Inr pr' \<Rightarrow> setitem d ''profiles'' pr'))"

section \<open>Construction\<close>

text \<open>
  \<open>get_settings\<close> reads the environment and globs the file system; both are parameters:
  \<open>environ\<close> is the environment, \<open>glob dir pat\<close> the list of paths under \<open>dir\<close> matching
  \<open>pat\<close>. \<open>not x\<close> holds of \<open>None\<close>, of the empty string and of the empty list.
\<close>

definition get_settings :: "(string \<rightharpoonup> string) \<Rightarrow> (string \<Rightarrow> string \<Rightarrow> string list) \<Rightarrow> error + string" where
  "get_settings environ glob =
     (case environ ''LOCALAPPDATA'' of
        None \<Rightarrow> Inl (Exception ''Failed to resolve %LOCALAPPDATA%'')
      | Some localappdata \<Rightarrow>
          if localappdata = [] then Inl (Exception ''Failed to resolve %LOCALAPPDATA%'')
          else
            (case glob (localappdata @ ''/Packages'')
                       ''Microsoft.WindowsTerminal_*/LocalState/settings.json'' of
               [] \<Rightarrow> Inl (Exception ''Failed to resolve Windows Terminal settings.json'')
             | s # _ \<Rightarrow> Inr s))"

text \<open>\<open>WtHandler()\<close>: \<open>__init__\<close> stores the path, or fails as \<open>get_settings\<close> does.\<close>

definition WtHandler :: "(string \<rightharpoonup> string) \<Rightarrow> (string \<Rightarrow> string \<Rightarrow> string list) \<Rightarrow> error + string" where
  "WtHandler environ glob = get_settings environ glob"

section \<open>The operations\<close>

text \<open>
  Each operation maps the file before the call to an error or to its result and the file
  after the call.
\<close>

text \<open>The loop of \<open>query\<close>: the first profile with \<open>profile.get(field) == value\<close>.\<close>

fun query_loop :: "json list \<Rightarrow> json \<Rightarrow> string \<Rightarrow> error + json option" where
  "query_loop [] val field = Inr None"
| "query_loop (profile # rest) val field =
     (case py_get profile field of Inl e \<Rightarrow> Inl e
      | Inr v \<Rightarrow> if py_eq v val then Inr (Some profile) else query_loop rest val field)"

definition query :: "fs \<Rightarrow> json \<Rightarrow> string \<Rightarrow> error + (json option \<times> fs)" where
  "query st val field =
     (case profiles st of Inl e \<Rightarrow> Inl e
      | Inr l \<Rightarrow>
          (case py_iter l of Inl e \<Rightarrow> Inl e
           | Inr ps \<Rightarrow>
               (case query_loop ps val field of Inl e \<Rightarrow> Inl e
                | Inr r \<Rightarrow> Inr (r, st))))"

text \<open>
  The loop of \<open>remove_profile\<close> over \<open>enumerate(self.profiles)\<close>: \<open>index\<close> stays \<open>None\<close>
  or becomes the position of the first match.
\<close>

fun find_index :: "nat \<Rightarrow> json list \<Rightarrow> json \<Rightarrow> string \<Rightarrow> error + nat option" where
  "find_index i [] val field = Inr None"
| "find_index i (profile # rest) val field =
     (case py_get profile field of Inl e \<Rightarrow> Inl e
      | Inr v \<Rightarrow> if py_eq v val then Inr (Some i) else find_index (Suc i) rest val field)"

text \<open>\<open>not index\<close>: true of \<open>None\<close> and of \<open>0\<close>.\<close>

fun not_index :: "nat option \<Rightarrow> bool" where
  "not_index None = True"
| "not_index (Some i) = (i = 0)"

definition remove_profile :: "fs \<Rightarrow> json \<Rightarrow> string \<Rightarrow> error + (json option \<times> fs)" where
  "remove_profile st val field =
     (case profiles st of Inl e \<Rightarrow> Inl e
      | Inr l \<Rightarrow>
      (case py_iter l of Inl e \<Rightarrow> Inl e
      | Inr ps \<Rightarrow>
      (case find_index 0 ps val field of Inl e \<Rightarrow> Inl e
      | Inr index \<Rightarrow>
          if not_index index then Inr (None, st)
          else
      (case data st of Inl e \<Rightarrow> Inl e
      | Inr d0 \<Rightarrow>
      (case py_copy d0 of Inl e \<Rightarrow> Inl e
      | Inr d \<Rightarrow>
      (case getitem d ''profiles'' of Inl e \<Rightarrow> Inl e
      | Inr pr \<Rightarrow>
      (case getitem pr ''list'' of Inl e \<Rightarrow> Inl e
      | Inr l1 \<Rightarrow>
      (case py_pop l1 index of Inl e \<Rightarrow> Inl e
      | Inr (profile, l2) \<Rightarrow>
      (case set_list d l2 of Inl e \<Rightarrow> Inl e
      | Inr d' \<Rightarrow> Inr (Some profile, write_text st d'))))))))))"

text \<open>
  \<open>add_profile\<close>: the walrus test is the truthiness of what \<open>query\<close> returned (\<open>None\<close> and
  the empty dict are false); the result of \<open>remove_profile\<close> is dropped.
\<close>

definition add_profile :: "fs \<Rightarrow> json \<Rightarrow> error + (bool \<times> fs)" where
  "add_profile st profile =
     (case getitem profile ''commandline'' of Inl e \<Rightarrow> Inl e
      | Inr c \<Rightarrow>
      (case query st c ''commandline'' of Inl e \<Rightarrow> Inl e
      | Inr (found, st0) \<Rightarrow>
      (case (case found of
               None \<Rightarrow> Inr st0
             | Some p \<Rightarrow>
                 if truthy p then
                   (case getitem p ''guid'' of Inl e \<Rightarrow> Inl e
                    | Inr g \<Rightarrow>
                        (case remove_profile st0 g ''guid'' of Inl e \<Rightarrow> Inl e
                         | Inr (removed, st1) \<Rightarrow> Inr st1))
                 else Inr st0) of Inl e \<Rightarrow> Inl e
      | Inr st1 \<Rightarrow>
      (case data st1 of Inl e \<Rightarrow> Inl e
      | Inr d0 \<Rightarrow>
      (case py_copy d0 of Inl e \<Rightarrow> Inl e
      | Inr d \<Rightarrow>
      (case profiles st1 of Inl e \<Rightarrow> Inl e
      | Inr l \<Rightarrow>
      (case py_add_list l [profile] of Inl e \<Rightarrow> Inl e
      | Inr l' \<Rightarrow>
      (case set_list d l' of Inl e \<Rightarrow> Inl e
      | Inr d' \<Rightarrow> Inr (True, write_text st1 d')))))))))"

section \<open>Settings documents\<close>

text \<open>
  The declared shape of the document (\<open>WtSettings\<close>) is a dict whose \<open>profiles\<close> is a dict
  whose \<open>list\<close> is a list of dicts; in the model that is \<open>profiles st = Inr (JArr ps)\<close>
  with every item of \<open>ps\<close> a dict. Which keys a profile has is left open.
\<close>

fun is_dict :: "json \<Rightarrow> bool" where
  "is_dict (JObj kvs) = True"
| "is_dict _ = False"

text \<open>
  The test both loops make on a profile, \<open>profile.get(field) == value\<close>, as a predicate
  (false where \<open>get\<close> is not defined).
\<close>

definition matches :: "json \<Rightarrow> string \<Rightarrow> json \<Rightarrow> bool" where
  "matches profile field val =
     (case py_get profile field of Inl e \<Rightarrow> False | Inr v \<Rightarrow> py_eq v val)"

text \<open>
  Two documents that agree outside the profile list: the same top-level keys in the same
  order, the same value under every key but \<open>profiles\<close>, and under \<open>profiles\<close> two dicts
  with the same keys in the same order and the same value under every key but \<open>list\<close>.
\<close>

definition same_outside_list :: "json \<Rightarrow> json \<Rightarrow> bool" where
  "same_outside_list d d' \<longleftrightarrow>
     (\<exists>kv pr kv' pr'. d = JObj kv \<and> d' = JObj kv'
        \<and> map fst kv' = map fst kv
        \<and> (\<forall>k. k \<noteq> ''profiles'' \<longrightarrow> map_of kv' k = map_of kv k)
        \<and> map_of kv ''profiles'' = Some (JObj pr) \<and> map_of kv' ''profiles'' = Some (JObj pr')
        \<and> map fst pr' = map fst pr
        \<and> (\<forall>k. k \<noteq> ''list'' \<longrightarrow> map_of pr' k = map_of pr k))"

section \<open>Example documents\<close>

text \<open>
  The profiles of the scenario the specification walks through, in a settings document
  that has other keys beside the profile list.
\<close>

definition profile_A :: json where
  "profile_A =
     JObj [(''name'', JStr ''A''), (''guid'', JStr ''{1}''), (''commandline'', JStr ''/x'')]"

definition profile_B :: json where
  "profile_B =
     JObj [(''name'', JStr ''B''), (''guid'', JStr ''{2}''), (''commandline'', JStr ''/y'')]"

definition profile_nameless :: json where
  "profile_nameless = JObj [(''guid'', JStr ''{4}''), (''commandline'', JStr ''/z'')]"

definition profile_C :: WtProfile where
  "profile_C = \<lparr>name = ''C'', guid = ''{3}'', commandline = ''/x'', icon = None\<rparr>"

definition settings_with :: "json list \<Rightarrow> fs" where
  "settings_with ps =
     \<lparr>contents = Doc (JObj [(''theme'', JStr ''dark''),
                           (''profiles'', JObj [(''defaults'', JObj []), (''list'', JArr ps)]),
                           (''schemes'', JArr [])]),
      writes = 0\<rparr>"

section \<open>Basic facts\<close>

lemma getitem_Inr:
  "getitem d k = Inr v \<longleftrightarrow> (\<exists>kvs. d = JObj kvs \<and> map_of kvs k = Some v)"
  by (cases d) (auto split: option.splits)

lemma profiles_Inr:
  "profiles st = Inr l \<longleftrightarrow>
     (\<exists>d pr. contents st = Doc (JObj d) \<and> map_of d ''profiles'' = Some (JObj pr)
        \<and> map_of pr ''list'' = Some l)"
  by (auto simp: profiles_def data_def getitem_Inr split: sum.splits content.splits)

lemma profiles_settings_with: "profiles (settings_with ps) = Inr (JArr ps)"
  by (simp add: profiles_def data_def settings_with_def)

lemma find_index_none:
  "\<forall>p\<in>set ps. \<exists>w. py_get p field = Inr w \<and> \<not> py_eq w val \<Longrightarrow>
   find_index i ps val field = Inr None"
  by (induction ps arbitrary: i) auto

lemma find_index_strs:
  "find_index i (map (\<lambda>x. JStr (g x)) xs) val field =
     (if xs = [] then Inr None else Inl AttributeError)"
  by (cases xs) auto

lemma find_index_range:
  "find_index i ps val field = Inr (Some j) \<Longrightarrow> i \<le> j \<and> j < i + length ps"
  by (induction ps arbitrary: i) (fastforce split: sum.splits if_splits)+

lemma py_iter_found:
  assumes "py_iter l = Inr ps" and "find_index i ps val field = Inr (Some j)"
  shows "l = JArr ps"
  using assms by (cases l) (auto simp: find_index_strs split: if_splits)

lemma py_eq_JStr: "py_eq v (JStr s) \<longleftrightarrow> v = JStr s"
  by (cases v) auto

lemma matches_JStr:
  "is_dict p \<Longrightarrow> matches p field (JStr s) \<longleftrightarrow> getitem p field = Inr (JStr s)"
  by (cases p) (auto simp: matches_def py_eq_JStr split: option.splits)

text \<open>On a list of dicts both loops are the library's search for the first match.\<close>

lemma query_loop_find:
  "\<forall>p\<in>set ps. is_dict p \<Longrightarrow>
   query_loop ps val field = Inr (find (\<lambda>p. matches p field val) ps)"
proof (induction ps)
  case Nil
  then show ?case by simp
next
  case (Cons p ps)
  then obtain kvs where "p = JObj kvs" by (cases p) auto
  with Cons show ?case by (simp add: matches_def)
qed

lemma find_index_takeWhile:
  "\<forall>p\<in>set ps. is_dict p \<Longrightarrow>
   find_index i ps val field =
     Inr (let k = length (takeWhile (\<lambda>p. \<not> matches p field val) ps)
          in if k = length ps then None else Some (i + k))"
proof (induction ps arbitrary: i)
  case Nil
  then show ?case by simp
next
  case (Cons p ps)
  then obtain kvs where "p = JObj kvs" by (cases p) auto
  with Cons show ?case by (simp add: matches_def Let_def)
qed

text \<open>A match at a position other than 0 is popped and the document written back.\<close>

lemma remove_profile_found:
  assumes "profiles st = Inr (JArr ps)"
    and "find_index 0 ps val field = Inr (Some i)" and "0 < i"
  shows "\<exists>d d'. contents st = Doc d
           \<and> set_list d (JArr (take i ps @ drop (Suc i) ps)) = Inr d'
           \<and> remove_profile st val field = Inr (Some (ps ! i), write_text st d')"
proof -
  from assms(1) obtain d pr where shape: "contents st = Doc (JObj d)"
      "map_of d ''profiles'' = Some (JObj pr)" "map_of pr ''list'' = Some (JArr ps)"
    by (auto simp: profiles_Inr)
  from assms(2) have "i < length ps" by (auto dest: find_index_range)
  with assms shape show ?thesis
    by (simp add: remove_profile_def data_def set_list_def)
qed

section \<open>The frame of a write\<close>

lemma set_list_Inr:
  "set_list d l = Inr d' \<longleftrightarrow>
     (\<exists>kv pr. d = JObj kv \<and> map_of kv ''profiles'' = Some (JObj pr)
        \<and> d' = JObj (AList.update ''profiles'' (JObj (AList.update ''list'' l pr)) kv))"
proof (cases d)
  case (JObj kv)
  show ?thesis
  proof (cases "map_of kv ''profiles''")
    case None
    with JObj show ?thesis by (simp add: set_list_def)
  next
    case (Some pr)
    with JObj show ?thesis by (cases pr) (auto simp: set_list_def)
  qed
qed (simp_all add: set_list_def)

lemma key_present: "map_of al k = Some v \<Longrightarrow> k \<in> fst ` set al"
  by (force dest: map_of_SomeD)

lemma same_outside_listI:
  assumes "map fst kv' = map fst kv"
    and "\<forall>k. k \<noteq> ''profiles'' \<longrightarrow> map_of kv' k = map_of kv k"
    and "map_of kv ''profiles'' = Some (JObj pr)" and "map_of kv' ''profiles'' = Some (JObj pr')"
    and "map fst pr' = map fst pr"
    and "\<forall>k. k \<noteq> ''list'' \<longrightarrow> map_of pr' k = map_of pr k"
  shows "same_outside_list (JObj kv) (JObj kv')"
  unfolding same_outside_list_def
  apply (rule exI [of _ kv], rule exI [of _ pr], rule exI [of _ kv'], rule exI [of _ pr'])
  using assms by simp

lemma same_outside_listE:
  assumes "same_outside_list d d'"
  obtains kv pr kv' pr' where "d = JObj kv" and "d' = JObj kv'"
    and "map fst kv' = map fst kv"
    and "\<forall>k. k \<noteq> ''profiles'' \<longrightarrow> map_of kv' k = map_of kv k"
    and "map_of kv ''profiles'' = Some (JObj pr)" and "map_of kv' ''profiles'' = Some (JObj pr')"
    and "map fst pr' = map fst pr"
    and "\<forall>k. k \<noteq> ''list'' \<longrightarrow> map_of pr' k = map_of pr k"
  using assms unfolding same_outside_list_def by (elim exE conjE) (rule that)

text \<open>Writing a new list into a document that has one changes nothing else.\<close>

lemma set_list_frame:
  assumes "profiles st = Inr l0" and "contents st = Doc d" and "set_list d l = Inr d'"
  shows "same_outside_list d d'" and "profiles (write_text st d') = Inr l"
proof -
  from assms(3) obtain kv pr0 where d: "d = JObj kv" "map_of kv ''profiles'' = Some (JObj pr0)"
      "d' = JObj (AList.update ''profiles'' (JObj (AList.update ''list'' l pr0)) kv)"
    by (auto simp: set_list_Inr)
  with assms(1,2) have l0: "map_of pr0 ''list'' = Some l0" by (auto simp: profiles_Inr)
  have k1: "''profiles'' \<in> fst ` set kv" using d(2) by (rule key_present)
  have k2: "''list'' \<in> fst ` set pr0" using l0 by (rule key_present)
  let ?pr' = "AList.update ''list'' l pr0"
  let ?kv' = "AList.update ''profiles'' (JObj ?pr') kv"
  have "same_outside_list (JObj kv) (JObj ?kv')"
  proof (rule same_outside_listI [where pr = pr0 and pr' = ?pr'])
    show "map fst ?kv' = map fst kv" using k1 by (simp add: update_keys)
    show "\<forall>k. k \<noteq> ''profiles'' \<longrightarrow> map_of ?kv' k = map_of kv k"
      by (simp add: update_conv')
    show "map_of kv ''profiles'' = Some (JObj pr0)" by (rule d(2))
    show "map_of ?kv' ''profiles'' = Some (JObj ?pr')" by (simp add: update_conv')
    show "map fst ?pr' = map fst pr0" using k2 by (simp add: update_keys)
    show "\<forall>k. k \<noteq> ''list'' \<longrightarrow> map_of ?pr' k = map_of pr0 k"
      by (simp add: update_conv')
  qed
  with d(1,3) show "same_outside_list d d'" by simp
  show "profiles (write_text st d') = Inr l"
    unfolding profiles_Inr
    apply (rule exI [of _ ?kv'], rule exI [of _ ?pr'])
    using d(3) by (simp add: write_text_def update_conv')
qed

lemma same_outside_list_trans:
  assumes "same_outside_list d d'" and "same_outside_list d' d''"
  shows "same_outside_list d d''"
proof -
  from assms(1) obtain kv pr kv' pr' where a: "d = JObj kv" "d' = JObj kv'"
      "map fst kv' = map fst kv" "\<forall>k. k \<noteq> ''profiles'' \<longrightarrow> map_of kv' k = map_of kv k"
      "map_of kv ''profiles'' = Some (JObj pr)" "map_of kv' ''profiles'' = Some (JObj pr')"
      "map fst pr' = map fst pr" "\<forall>k. k \<noteq> ''list'' \<longrightarrow> map_of pr' k = map_of pr k"
    by (rule same_outside_listE)
  from assms(2) obtain kv2 pr2 kv'' pr'' where b0: "d' = JObj kv2" "d'' = JObj kv''"
      "map fst kv'' = map fst kv2" "\<forall>k. k \<noteq> ''profiles'' \<longrightarrow> map_of kv'' k = map_of kv2 k"
      "map_of kv2 ''profiles'' = Some (JObj pr2)" "map_of kv'' ''profiles'' = Some (JObj pr'')"
      "map fst pr'' = map fst pr2" "\<forall>k. k \<noteq> ''list'' \<longrightarrow> map_of pr'' k = map_of pr2 k"
    by (rule same_outside_listE)
  from a(2) b0(1) have kv2: "kv2 = kv'" by simp
  with a(6) b0(5) have pr2: "pr2 = pr'" by simp
  note b = b0 [unfolded kv2 pr2]
  have "same_outside_list (JObj kv) (JObj kv'')"
  proof (rule same_outside_listI [where pr = pr and pr' = pr''])
    show "map fst kv'' = map fst kv" using a(3) b(3) by simp
    show "\<forall>k. k \<noteq> ''profiles'' \<longrightarrow> map_of kv'' k = map_of kv k"
      using a(4) b(4) by simp
    show "map fst pr'' = map fst pr" using a(7) b(7) by simp
    show "\<forall>k. k \<noteq> ''list'' \<longrightarrow> map_of pr'' k = map_of pr k"
      using a(8) b(8) by simp
  qed (rule a(5) b(6))+
  with a(1) b(2) show ?thesis by simp
qed

lemma query_state: "query st val field = Inr (r, st') \<Longrightarrow> st' = st"
  by (auto simp: query_def split: sum.splits)

lemma data_Inr: "data st = Inr d \<longleftrightarrow> contents st = Doc d"
  by (simp add: data_def split: content.splits)

lemma py_copy_Inr: "py_copy d = Inr d' \<Longrightarrow> d' = d"
  by (cases d) auto

lemma py_add_list_Inr: "py_add_list l ys = Inr l' \<longleftrightarrow> (\<exists>xs. l = JArr xs \<and> l' = JArr (xs @ ys))"
  by (cases l) auto

text \<open>What a returning \<open>remove_profile\<close> has done.\<close>

lemma remove_profile_None: "remove_profile st val field = Inr (None, st') \<Longrightarrow> st' = st"
  by (auto simp: remove_profile_def split: sum.splits if_splits prod.splits)

lemma remove_profile_Some:
  assumes "remove_profile st val field = Inr (Some x, st')"
  shows "\<exists>ps i d d'. profiles st = Inr (JArr ps) \<and> 0 < i \<and> i < length ps
           \<and> find_index 0 ps val field = Inr (Some i) \<and> x = ps ! i
           \<and> contents st = Doc d
           \<and> set_list d (JArr (take i ps @ drop (Suc i) ps)) = Inr d'
           \<and> st' = write_text st d'"
proof -
  from assms obtain l where l: "profiles st = Inr l"
    by (auto simp: remove_profile_def split: sum.splits)
  from assms l obtain ps where ps: "py_iter l = Inr ps"
    by (auto simp: remove_profile_def split: sum.splits)
  from assms l ps obtain index where ix: "find_index 0 ps val field = Inr index"
    by (auto simp: remove_profile_def split: sum.splits)
  from assms l ps ix have "\<not> not_index index"
    by (auto simp: remove_profile_def)
  then obtain i where i: "index = Some i" "0 < i" by (cases index) auto
  with ix ps have arr: "l = JArr ps" by (auto dest: py_iter_found)
  from remove_profile_found [OF l [unfolded arr] ix [unfolded i(1)] i(2)] assms
  have "\<exists>d d'. contents st = Doc d
           \<and> set_list d (JArr (take i ps @ drop (Suc i) ps)) = Inr d'
           \<and> x = ps ! i \<and> st' = write_text st d'"
    by auto
  moreover from ix i have "i < length ps" by (auto dest: find_index_range)
  ultimately show ?thesis using l arr ix i by auto
qed

text \<open>What a returning \<open>add_profile\<close> has done.\<close>

lemma add_profile_Inr:
  assumes "add_profile st profile = Inr (r, st')"
  shows "\<exists>st1 ps d d'.
           (st1 = st \<or> (\<exists>g x. remove_profile st g ''guid'' = Inr (x, st1)))
           \<and> profiles st1 = Inr (JArr ps) \<and> contents st1 = Doc d
           \<and> set_list d (JArr (ps @ [profile])) = Inr d'
           \<and> st' = write_text st1 d' \<and> r"
  using assms
  by (auto simp: add_profile_def data_Inr py_add_list_Inr
      split: sum.splits option.splits if_splits prod.splits
      dest!: query_state py_copy_Inr)

lemma add_profile_InrE:
  assumes "add_profile st profile = Inr (r, st')"
  obtains st1 ps d d' where
    "st1 = st \<or> (\<exists>g x. remove_profile st g ''guid'' = Inr (x, st1))"
    and "profiles st1 = Inr (JArr ps)" and "contents st1 = Doc d"
    and "set_list d (JArr (ps @ [profile])) = Inr d'" and "st' = write_text st1 d'" and "r"
  using add_profile_Inr [OF assms] by (elim exE conjE) (rule that)

lemma query_find:
  assumes "profiles st = Inr (JArr ps)" and "\<forall>p\<in>set ps. is_dict p"
  shows "query st val field = Inr (find (\<lambda>p. matches p field val) ps, st)"
  using assms by (simp add: query_def query_loop_find)

lemma remove_profile_frame:
  assumes "remove_profile st val field = Inr (x, st')"
  shows "st' = st \<or> (\<exists>d d'. contents st = Doc d \<and> contents st' = Doc d' \<and> same_outside_list d d')"
proof (cases x)
  case None
  with assms show ?thesis by (auto dest: remove_profile_None)
next
  case (Some p)
  with assms obtain ps i d d' where r: "profiles st = Inr (JArr ps)" "contents st = Doc d"
      "set_list d (JArr (take i ps @ drop (Suc i) ps)) = Inr d'" "st' = write_text st d'"
    by (auto dest!: remove_profile_Some)
  from set_list_frame(1) [OF r(1,2,3)] r(2,4) show ?thesis
    by (auto simp: write_text_def)
qed

lemma getitem_entry_commandline: "getitem (entry P) ''commandline'' = Inr (JStr (commandline P))"
  by (simp add: entry_def)

lemma is_dict_entry: "is_dict (entry P)"
  by (simp add: entry_def)

lemma add_profile_no_match:
  assumes "profiles st = Inr (JArr ps)"
    and "\<forall>p\<in>set ps. is_dict p \<and> getitem p ''commandline'' \<noteq> Inr (JStr (commandline P))"
  shows "\<exists>d d'. contents st = Doc d \<and> set_list d (JArr (ps @ [entry P])) = Inr d'
           \<and> add_profile st (entry P) = Inr (True, write_text st d')"
proof -
  from assms(1) obtain kv pr where shape: "contents st = Doc (JObj kv)"
      "map_of kv ''profiles'' = Some (JObj pr)" "map_of pr ''list'' = Some (JArr ps)"
    by (auto simp: profiles_Inr)
  from assms(2) have dicts: "\<forall>p\<in>set ps. is_dict p" by simp
  from assms(2) have "find (\<lambda>p. matches p ''commandline'' (JStr (commandline P))) ps = None"
    by (simp add: find_None_iff matches_JStr)
  with query_find [OF assms(1) dicts]
  have q: "query st (JStr (commandline P)) ''commandline'' = Inr (None, st)" by simp
  from shape assms(1) q show ?thesis
    by (simp add: add_profile_def getitem_entry_commandline data_def set_list_def)
qed

lemma profiles_error:
  assumes "profiles st = Inl e"
  shows "query st val field = Inl e" and "remove_profile st val field = Inl e"
    and "getitem profile ''commandline'' = Inr c \<Longrightarrow> add_profile st profile = Inl e"
  using assms by (simp_all add: query_def remove_profile_def add_profile_def)

text \<open>The operations on the example documents.\<close>

lemma add_example:
  "add_profile (settings_with [profile_B, profile_A]) (entry profile_C)
     = Inr (True, (settings_with [profile_B, entry profile_C])\<lparr>writes := 2\<rparr>)"
  by (simp add: add_profile_def query_def remove_profile_def profiles_def data_def
      set_list_def write_text_def settings_with_def profile_A_def profile_B_def
      profile_C_def entry_def)

lemma remove_example:
  "remove_profile (settings_with [profile_A, profile_B]) (JStr ''{2}'') ''guid''
     = Inr (Some profile_B, (settings_with [profile_A])\<lparr>writes := 1\<rparr>)"
  by (simp add: remove_profile_def profiles_def data_def
      set_list_def write_text_def settings_with_def profile_A_def profile_B_def)

section \<open>Removal\<close>

text \<open>
  Claim C2. When the first profile whose field equals the value is the one at position 0
  of the list, \<open>remove_profile\<close> returns \<open>None\<close> and the file is as before: nothing is
  removed and \<open>write_text\<close> is not called (\<open>index\<close> is \<open>0\<close>, and \<open>not 0\<close> is true).
\<close>

theorem C2_remove_profile_match_at_head:
  assumes "profiles st = Inr (JArr (p # ps))"
    and "py_get p field = Inr w" and "py_eq w val"
  shows "remove_profile st val field = Inr (None, st)"
  using assms by (simp add: remove_profile_def)

theorem C2_remove_profile_match_at_head_witness:
  "profiles (settings_with [profile_A, profile_B]) = Inr (JArr (profile_A # [profile_B]))
   \<and> py_get profile_A ''guid'' = Inr (JStr ''{1}'') \<and> py_eq (JStr ''{1}'') (JStr ''{1}'')
   \<and> remove_profile (settings_with [profile_A, profile_B]) (JStr ''{1}'') ''guid''
       = Inr (None, settings_with [profile_A, profile_B])"
proof -
  have h1: "profiles (settings_with [profile_A, profile_B]) = Inr (JArr (profile_A # [profile_B]))"
    by (simp add: profiles_settings_with)
  have h2: "py_get profile_A ''guid'' = Inr (JStr ''{1}'')"
    by (simp add: profile_A_def)
  have h3: "py_eq (JStr ''{1}'') (JStr ''{1}'')" by simp
  from C2_remove_profile_match_at_head [OF h1 h2 h3] h1 h2 h3 show ?thesis by simp
qed

text \<open>
  Claim C4. When no profile of the list has the field equal to the value,
  \<open>remove_profile\<close> returns \<open>None\<close> and the file is as before: same document, same list,
  and no call of \<open>write_text\<close>.
\<close>

theorem C4_remove_profile_no_match:
  assumes "profiles st = Inr (JArr ps)"
    and "\<forall>p\<in>set ps. \<exists>w. py_get p field = Inr w \<and> \<not> py_eq w val"
  shows "remove_profile st val field = Inr (None, st)"
  using assms by (simp add: remove_profile_def find_index_none)

theorem C4_remove_profile_no_match_witness:
  "profiles (settings_with [profile_A, profile_B]) = Inr (JArr [profile_A, profile_B])
   \<and> py_get profile_A ''guid'' = Inr (JStr ''{1}'') \<and> \<not> py_eq (JStr ''{1}'') (JStr ''{9}'')
   \<and> py_get profile_B ''guid'' = Inr (JStr ''{2}'') \<and> \<not> py_eq (JStr ''{2}'') (JStr ''{9}'')
   \<and> remove_profile (settings_with [profile_A, profile_B]) (JStr ''{9}'') ''guid''
       = Inr (None, settings_with [profile_A, profile_B])"
proof -
  have h1: "profiles (settings_with [profile_A, profile_B]) = Inr (JArr [profile_A, profile_B])"
    by (simp add: profiles_settings_with)
  have h2: "\<forall>p\<in>set [profile_A, profile_B].
              \<exists>w. py_get p ''guid'' = Inr w \<and> \<not> py_eq w (JStr ''{9}'')"
    by (simp add: profile_A_def profile_B_def)
  from C4_remove_profile_no_match [OF h1 h2] h1 show ?thesis
    by (simp add: profile_A_def profile_B_def)
qed

section \<open>Query\<close>

text \<open>
  Claim C6. On a settings document, \<open>query\<close> returns the first profile of the list, in
  list order, whose field equals the value, and \<open>None\<close> when there is none; the file after
  the call is the file before it (same document, no write).
\<close>

theorem C6_query_first_match:
  assumes "profiles st = Inr (JArr ps)" and "\<forall>p\<in>set ps. is_dict p"
  shows "query st val field = Inr (find (\<lambda>p. matches p field val) ps, st)"
  using assms by (rule query_find)

theorem C6_query_first_match_witness:
  "profiles (settings_with [profile_A, profile_B]) = Inr (JArr [profile_A, profile_B])
   \<and> is_dict profile_A \<and> is_dict profile_B
   \<and> query (settings_with [profile_A, profile_B]) (JStr ''{2}'') ''guid''
       = Inr (Some profile_B, settings_with [profile_A, profile_B])
   \<and> query (settings_with [profile_A, profile_B]) (JStr ''{9}'') ''guid''
       = Inr (None, settings_with [profile_A, profile_B])"
proof -
  have h1: "profiles (settings_with [profile_A, profile_B]) = Inr (JArr [profile_A, profile_B])"
    by (simp add: profiles_settings_with)
  have h2: "\<forall>p\<in>set [profile_A, profile_B]. is_dict p"
    by (simp add: profile_A_def profile_B_def)
  from C6_query_first_match [OF h1 h2, of "JStr ''{2}''" "''guid''"]
       C6_query_first_match [OF h1 h2, of "JStr ''{9}''" "''guid''"] h1
  show ?thesis
    by (simp add: matches_def profile_A_def profile_B_def)
qed

text \<open>
  Claim C10. On a settings document whose profiles are dicts with any keys, \<open>query\<close> and
  \<open>remove_profile\<close> with a string value return (they raise nothing), and a profile that
  lacks the field is passed over: \<open>query\<close> returns the first profile that has the field
  with that value, and \<open>remove_profile\<close> returns the profile at the position \<open>k\<close> of that
  first profile (\<open>None\<close> when there is none, or when \<open>k = 0\<close>).
\<close>

theorem C10_missing_field_is_no_match:
  assumes "profiles st = Inr (JArr ps)" and "\<forall>p\<in>set ps. is_dict p"
  shows "query st (JStr s) field = Inr (find (\<lambda>p. getitem p field = Inr (JStr s)) ps, st)
       \<and> (\<exists>st'. remove_profile st (JStr s) field =
             Inr (let k = length (takeWhile (\<lambda>p. getitem p field \<noteq> Inr (JStr s)) ps)
                  in if k = 0 \<or> k = length ps then None else Some (ps ! k), st'))"
proof -
  have eq: "find (\<lambda>p. matches p field (JStr s)) ps
            = find (\<lambda>p. getitem p field = Inr (JStr s)) ps"
    using assms(2) by (intro find_cong) (auto simp: matches_JStr)
  have tw: "takeWhile (\<lambda>p. \<not> matches p field (JStr s)) ps
            = takeWhile (\<lambda>p. getitem p field \<noteq> Inr (JStr s)) ps"
    using assms(2) by (intro takeWhile_cong) (auto simp: matches_JStr)
  let ?k = "length (takeWhile (\<lambda>p. getitem p field \<noteq> Inr (JStr s)) ps)"
  have fi: "find_index 0 ps (JStr s) field = Inr (if ?k = length ps then None else Some ?k)"
    using assms(2) by (simp add: find_index_takeWhile tw Let_def)
  have q: "query st (JStr s) field = Inr (find (\<lambda>p. getitem p field = Inr (JStr s)) ps, st)"
    using assms by (simp add: query_def query_loop_find eq)
  have r: "\<exists>st'. remove_profile st (JStr s) field =
             Inr (if ?k = 0 \<or> ?k = length ps then None else Some (ps ! ?k), st')"
  proof (cases "?k = 0 \<or> ?k = length ps")
    case True
    with assms(1) fi show ?thesis by (auto simp: remove_profile_def)
  next
    case False
    with fi have "find_index 0 ps (JStr s) field = Inr (Some ?k)" "0 < ?k" by auto
    from remove_profile_found [OF assms(1) this] False show ?thesis by auto
  qed
  show ?thesis unfolding Let_def using q r by blast
qed

theorem C10_missing_field_is_no_match_witness:
  "profiles (settings_with [profile_A, profile_nameless, profile_B])
     = Inr (JArr [profile_A, profile_nameless, profile_B])
   \<and> is_dict profile_A \<and> is_dict profile_nameless \<and> is_dict profile_B
   \<and> getitem profile_nameless ''name'' = Inl (KeyError (JStr ''name''))
   \<and> query (settings_with [profile_A, profile_nameless, profile_B]) (JStr ''B'') ''name''
       = Inr (Some profile_B, settings_with [profile_A, profile_nameless, profile_B])
   \<and> (\<exists>st'. remove_profile (settings_with [profile_A, profile_nameless, profile_B])
                (JStr ''B'') ''name'' = Inr (Some profile_B, st'))"
proof -
  have h1: "profiles (settings_with [profile_A, profile_nameless, profile_B])
              = Inr (JArr [profile_A, profile_nameless, profile_B])"
    by (simp add: profiles_settings_with)
  have h2: "\<forall>p\<in>set [profile_A, profile_nameless, profile_B]. is_dict p"
    by (simp add: profile_A_def profile_B_def profile_nameless_def)
  from C10_missing_field_is_no_match [OF h1 h2, of "''B''" "''name''"] h1
  show ?thesis
    by (simp add: profile_A_def profile_B_def profile_nameless_def)
qed

section \<open>Adding\<close>

text \<open>
  Claim C3. For a profile \<open>P\<close> as the \<open>add\<close> command builds it and a settings document in
  which no profile has \<open>commandline\<close> equal to that of \<open>P\<close>, \<open>add_profile\<close> returns
  \<open>True\<close>, and in the file it leaves \<open>query\<close> for that \<open>commandline\<close> returns \<open>P\<close>.
\<close>

theorem C3_add_then_query:
  assumes "profiles st = Inr (JArr ps)"
    and "\<forall>p\<in>set ps. is_dict p \<and> getitem p ''commandline'' \<noteq> Inr (JStr (commandline P))"
  shows "\<exists>st'. add_profile st (entry P) = Inr (True, st')
           \<and> query st' (JStr (commandline P)) ''commandline'' = Inr (Some (entry P), st')"
proof -
  from add_profile_no_match [OF assms] obtain d d' where a: "contents st = Doc d"
      "set_list d (JArr (ps @ [entry P])) = Inr d'"
      "add_profile st (entry P) = Inr (True, write_text st d')"
    by auto
  let ?st' = "write_text st d'"
  have p': "profiles ?st' = Inr (JArr (ps @ [entry P]))"
    by (rule set_list_frame(2) [OF assms(1) a(1,2)])
  have dicts: "\<forall>p\<in>set (ps @ [entry P]). is_dict p"
    using assms(2) by (simp add: is_dict_entry)
  have "find (\<lambda>p. matches p ''commandline'' (JStr (commandline P))) (ps @ [entry P])
          = Some (entry P)"
    using assms(2) by (induction ps) (simp_all add: matches_JStr is_dict_entry getitem_entry_commandline)
  with query_find [OF p' dicts]
  have "query ?st' (JStr (commandline P)) ''commandline'' = Inr (Some (entry P), ?st')"
    by simp
  with a(3) show ?thesis by blast
qed

theorem C3_add_then_query_witness:
  "profiles (settings_with [profile_B]) = Inr (JArr [profile_B])
   \<and> is_dict profile_B
   \<and> getitem profile_B ''commandline'' \<noteq> Inr (JStr (commandline profile_C))
   \<and> (\<exists>st'. add_profile (settings_with [profile_B]) (entry profile_C) = Inr (True, st')
          \<and> query st' (JStr (commandline profile_C)) ''commandline''
              = Inr (Some (entry profile_C), st'))"
proof -
  have h1: "profiles (settings_with [profile_B]) = Inr (JArr [profile_B])"
    by (simp add: profiles_settings_with)
  have h2: "\<forall>p\<in>set [profile_B].
              is_dict p \<and> getitem p ''commandline'' \<noteq> Inr (JStr (commandline profile_C))"
    by (simp add: profile_B_def profile_C_def)
  from C3_add_then_query [OF h1 h2] h1 h2 show ?thesis by simp
qed

text \<open>
  Claim C1. The scenario of the specification: the list holds the one profile \<open>A\<close> with
  \<open>commandline = "/x"\<close>, and \<open>C\<close> with the same \<open>commandline\<close> is added. \<open>query\<close> finds
  \<open>A\<close>, \<open>remove_profile\<close> finds it at position 0, takes \<open>0\<close> for "not found" and removes
  nothing, and \<open>C\<close> is appended: the list written is \<open>[A, C]\<close>, with two profiles of that
  \<open>commandline\<close> and the guid of \<open>A\<close> still in it, in one write.
\<close>

theorem C1_add_profile_collision_at_head:
  "add_profile (settings_with [profile_A]) (entry profile_C)
     = Inr (True, (settings_with [profile_A, entry profile_C])\<lparr>writes := 1\<rparr>)
   \<and> getitem profile_A ''commandline'' = Inr (JStr ''/x'')
   \<and> getitem (entry profile_C) ''commandline'' = Inr (JStr ''/x'')
   \<and> getitem profile_A ''guid'' = Inr (JStr ''{1}'')"
  by (simp add: add_profile_def query_def remove_profile_def profiles_def data_def
      set_list_def write_text_def settings_with_def profile_A_def profile_C_def entry_def)

section \<open>What a write leaves alone\<close>

text \<open>
  Claim C5. The document after a returning \<open>add_profile\<close> (whether or not it removed a
  profile first), and after a \<open>remove_profile\<close> that returned a profile, agrees with the
  document before outside the profile list: every top-level key other than \<open>profiles\<close>,
  and every key of the \<open>profiles\<close> dict other than \<open>list\<close>, has the value it had, and the
  keys stand in the same order.
\<close>

theorem C5_frame:
  assumes "add_profile st profile = Inr (r, st') \<or> remove_profile st val field = Inr (Some x, st')"
  shows "\<exists>d d'. contents st = Doc d \<and> contents st' = Doc d' \<and> same_outside_list d d'"
  using assms
proof
  assume "remove_profile st val field = Inr (Some x, st')"
  then obtain ps i d d' where r: "profiles st = Inr (JArr ps)" "contents st = Doc d"
      "set_list d (JArr (take i ps @ drop (Suc i) ps)) = Inr d'" "st' = write_text st d'"
    by (auto dest!: remove_profile_Some)
  from set_list_frame(1) [OF r(1,2,3)] r(2,4) show ?thesis
    by (auto simp: write_text_def)
next
  assume "add_profile st profile = Inr (r, st')"
  then obtain st1 ps d1 d' where a:
      "st1 = st \<or> (\<exists>g x. remove_profile st g ''guid'' = Inr (x, st1))"
      "profiles st1 = Inr (JArr ps)" "contents st1 = Doc d1"
      "set_list d1 (JArr (ps @ [profile])) = Inr d'" "st' = write_text st1 d'"
    by (rule add_profile_InrE)
  have last: "same_outside_list d1 d'" by (rule set_list_frame(1) [OF a(2,3,4)])
  have st': "contents st' = Doc d'" using a(5) by (simp add: write_text_def)
  from a(1) remove_profile_frame
  have "st1 = st \<or> (\<exists>d. contents st = Doc d \<and> same_outside_list d d1)"
    using a(3) by fastforce
  then show ?thesis
  proof
    assume "st1 = st"
    with a(3) last st' show ?thesis by auto
  next
    assume "\<exists>d. contents st = Doc d \<and> same_outside_list d d1"
    then obtain d where "contents st = Doc d" "same_outside_list d d1" by auto
    with last st' show ?thesis by (auto intro: same_outside_list_trans)
  qed
qed

theorem C5_frame_witness:
  "add_profile (settings_with [profile_B, profile_A]) (entry profile_C)
     = Inr (True, (settings_with [profile_B, entry profile_C])\<lparr>writes := 2\<rparr>)
   \<and> (\<exists>d d'. contents (settings_with [profile_B, profile_A]) = Doc d
         \<and> contents ((settings_with [profile_B, entry profile_C])\<lparr>writes := 2\<rparr>) = Doc d'
         \<and> same_outside_list d d')
   \<and> remove_profile (settings_with [profile_A, profile_B]) (JStr ''{2}'') ''guid''
     = Inr (Some profile_B, (settings_with [profile_A])\<lparr>writes := 1\<rparr>)
   \<and> (\<exists>d d'. contents (settings_with [profile_A, profile_B]) = Doc d
         \<and> contents ((settings_with [profile_A])\<lparr>writes := 1\<rparr>) = Doc d'
         \<and> same_outside_list d d')"
  using add_example remove_example
    C5_frame [OF disjI1 [OF add_example]]
    C5_frame [OF disjI2 [OF remove_example]]
  by (intro conjI)

section \<open>Order of the list\<close>

text \<open>
  Claim C9. A returning \<open>add_profile\<close> leaves the list it found, or that list with one
  item taken out, followed by the new profile; a \<open>remove_profile\<close> that returned a
  profile leaves the list with that one item taken out, the rest in order; \<open>query\<close>
  leaves the file as it was.
\<close>

theorem C9_order:
  "(add_profile st profile = Inr (r, st') \<longrightarrow>
      (\<exists>ps qs. profiles st = Inr (JArr ps) \<and> profiles st' = Inr (JArr (qs @ [profile]))
         \<and> (qs = ps \<or> (\<exists>i<length ps. qs = take i ps @ drop (Suc i) ps))))
   \<and> (remove_profile st val field = Inr (Some x, st'') \<longrightarrow>
      (\<exists>ps i. profiles st = Inr (JArr ps) \<and> i < length ps \<and> x = ps ! i
         \<and> profiles st'' = Inr (JArr (take i ps @ drop (Suc i) ps))))
   \<and> (query st val field = Inr (y, st''') \<longrightarrow> st''' = st)"
proof (intro conjI impI)
  assume "query st val field = Inr (y, st''')"
  then show "st''' = st" by (rule query_state)
next
  assume "remove_profile st val field = Inr (Some x, st'')"
  then obtain ps i d d' where r: "profiles st = Inr (JArr ps)" "i < length ps" "x = ps ! i"
      "contents st = Doc d"
      "set_list d (JArr (take i ps @ drop (Suc i) ps)) = Inr d'" "st'' = write_text st d'"
    by (auto dest!: remove_profile_Some)
  from set_list_frame(2) [OF r(1,4,5)] r
  show "\<exists>ps i. profiles st = Inr (JArr ps) \<and> i < length ps \<and> x = ps ! i
         \<and> profiles st'' = Inr (JArr (take i ps @ drop (Suc i) ps))"
    by auto
next
  assume "add_profile st profile = Inr (r, st')"
  then obtain st1 qs d1 d' where a:
      "st1 = st \<or> (\<exists>g x. remove_profile st g ''guid'' = Inr (x, st1))"
      "profiles st1 = Inr (JArr qs)" "contents st1 = Doc d1"
      "set_list d1 (JArr (qs @ [profile])) = Inr d'" "st' = write_text st1 d'"
    by (rule add_profile_InrE)
  have new: "profiles st' = Inr (JArr (qs @ [profile]))"
    unfolding a(5) by (rule set_list_frame(2) [OF a(2,3,4)])
  from a(1) have "\<exists>ps. profiles st = Inr (JArr ps)
       \<and> (qs = ps \<or> (\<exists>i<length ps. qs = take i ps @ drop (Suc i) ps))"
  proof
    assume "st1 = st"
    with a(2) show ?thesis by auto
  next
    assume "\<exists>g x. remove_profile st g ''guid'' = Inr (x, st1)"
    then obtain g x where rm: "remove_profile st g ''guid'' = Inr (x, st1)" by auto
    show ?thesis
    proof (cases x)
      case None
      with rm have "st1 = st" by (auto dest: remove_profile_None)
      with a(2) show ?thesis by auto
    next
      case (Some p)
      with rm obtain ps i d d2 where r: "profiles st = Inr (JArr ps)" "i < length ps"
          "contents st = Doc d"
          "set_list d (JArr (take i ps @ drop (Suc i) ps)) = Inr d2" "st1 = write_text st d2"
        by (auto dest!: remove_profile_Some)
      from set_list_frame(2) [OF r(1,3,4)] r(5) a(2)
      have "qs = take i ps @ drop (Suc i) ps" by simp
      with r(1,2) show ?thesis by auto
    qed
  qed
  with new show "\<exists>ps qs. profiles st = Inr (JArr ps) \<and> profiles st' = Inr (JArr (qs @ [profile]))
         \<and> (qs = ps \<or> (\<exists>i<length ps. qs = take i ps @ drop (Suc i) ps))"
    by auto
qed

theorem C9_order_witness:
  "add_profile (settings_with [profile_B, profile_A]) (entry profile_C)
     = Inr (True, (settings_with [profile_B, entry profile_C])\<lparr>writes := 2\<rparr>)
   \<and> (\<exists>ps qs. profiles (settings_with [profile_B, profile_A]) = Inr (JArr ps)
         \<and> profiles ((settings_with [profile_B, entry profile_C])\<lparr>writes := 2\<rparr>)
             = Inr (JArr (qs @ [entry profile_C]))
         \<and> (qs = ps \<or> (\<exists>i<length ps. qs = take i ps @ drop (Suc i) ps)))
   \<and> remove_profile (settings_with [profile_B, profile_A]) (JStr ''{1}'') ''guid''
     = Inr (Some profile_A, (settings_with [profile_B])\<lparr>writes := 1\<rparr>)
   \<and> (\<exists>ps i. profiles (settings_with [profile_B, profile_A]) = Inr (JArr ps)
         \<and> i < length ps \<and> profile_A = ps ! i
         \<and> profiles ((settings_with [profile_B])\<lparr>writes := 1\<rparr>)
             = Inr (JArr (take i ps @ drop (Suc i) ps)))
   \<and> query (settings_with [profile_B, profile_A]) (JStr ''{1}'') ''guid''
     = Inr (Some profile_A, settings_with [profile_B, profile_A])"
proof -
  let ?st = "settings_with [profile_B, profile_A]"
  have a: "add_profile ?st (entry profile_C)
             = Inr (True, (settings_with [profile_B, entry profile_C])\<lparr>writes := 2\<rparr>)"
    by (rule add_example)
  have r: "remove_profile ?st (JStr ''{1}'') ''guid''
             = Inr (Some profile_A, (settings_with [profile_B])\<lparr>writes := 1\<rparr>)"
    by (simp add: remove_profile_def profiles_def data_def
        set_list_def write_text_def settings_with_def profile_A_def profile_B_def)
  have q: "query ?st (JStr ''{1}'') ''guid'' = Inr (Some profile_A, ?st)"
    by (simp add: query_def profiles_def data_def settings_with_def profile_A_def profile_B_def)
  note t = C9_order [of ?st "entry profile_C" True
      "(settings_with [profile_B, entry profile_C])\<lparr>writes := 2\<rparr>"
      "JStr ''{1}''" "''guid''" profile_A "(settings_with [profile_B])\<lparr>writes := 1\<rparr>"
      "Some profile_A" ?st]
  from t a have c1: "\<exists>ps qs. profiles ?st = Inr (JArr ps)
         \<and> profiles ((settings_with [profile_B, entry profile_C])\<lparr>writes := 2\<rparr>)
             = Inr (JArr (qs @ [entry profile_C]))
         \<and> (qs = ps \<or> (\<exists>i<length ps. qs = take i ps @ drop (Suc i) ps))"
    by (elim conjE) (rule mp)
  from t r have c2: "\<exists>ps i. profiles ?st = Inr (JArr ps)
         \<and> i < length ps \<and> profile_A = ps ! i
         \<and> profiles ((settings_with [profile_B])\<lparr>writes := 1\<rparr>)
             = Inr (JArr (take i ps @ drop (Suc i) ps))"
    by (elim conjE) (rule mp)
  from a c1 r c2 q show ?thesis by (intro conjI)
qed

section \<open>Failures\<close>

text \<open>
  Claim C7. Constructing the handler fails when \<open>LOCALAPPDATA\<close> is not set, and when it is
  set and the glob for settings.json matches no path. The code raises a plain
  \<open>Exception\<close> in both cases; the message tells them apart (an empty \<open>LOCALAPPDATA\<close> counts
  as not set). This is the failure the specification calls a configuration error.
\<close>

theorem C7_construction_fails:
  "(environ ''LOCALAPPDATA'' = None \<longrightarrow>
      WtHandler environ glob = Inl (Exception ''Failed to resolve %LOCALAPPDATA%''))
   \<and> (\<forall>l. environ ''LOCALAPPDATA'' = Some l
          \<and> glob (l @ ''/Packages'') ''Microsoft.WindowsTerminal_*/LocalState/settings.json'' = []
        \<longrightarrow> WtHandler environ glob =
              Inl (Exception (if l = [] then ''Failed to resolve %LOCALAPPDATA%''
                              else ''Failed to resolve Windows Terminal settings.json'')))"
  by (simp add: WtHandler_def get_settings_def)

theorem C7_construction_fails_witness:
  "WtHandler Map.empty (\<lambda>dir pat. [''C:/settings.json''])
     = Inl (Exception ''Failed to resolve %LOCALAPPDATA%'')
   \<and> WtHandler [''LOCALAPPDATA'' \<mapsto> ''C:/Users/u/AppData/Local''] (\<lambda>dir pat. [])
     = Inl (Exception ''Failed to resolve Windows Terminal settings.json'')"
  using C7_construction_fails [of Map.empty "\<lambda>dir pat. [''C:/settings.json'']"]
    C7_construction_fails [of "[''LOCALAPPDATA'' \<mapsto> ''C:/Users/u/AppData/Local'']" "\<lambda>dir pat. []"]
  by simp

text \<open>
  Claim C8. When the file is not valid JSON, \<open>loads\<close> raises \<open>JSONDecodeError\<close> in every
  operation; when the document is a dict without \<open>profiles\<close>, or its \<open>profiles\<close> is a
  dict without \<open>list\<close>, every operation that reads the profile list raises \<open>KeyError\<close>
  for the missing key. These are the failures the specification calls a data format
  error; none of them is caught.
\<close>

theorem C8_unreadable_document:
  "(contents st = Malformed \<longrightarrow>
      data st = Inl JSONDecodeError \<and> profiles st = Inl JSONDecodeError
      \<and> query st val field = Inl JSONDecodeError
      \<and> remove_profile st val field = Inl JSONDecodeError
      \<and> add_profile st (entry P) = Inl JSONDecodeError)
   \<and> (\<forall>kv. contents st = Doc (JObj kv) \<and> map_of kv ''profiles'' = None \<longrightarrow>
      profiles st = Inl (KeyError (JStr ''profiles''))
      \<and> query st val field = Inl (KeyError (JStr ''profiles''))
      \<and> remove_profile st val field = Inl (KeyError (JStr ''profiles''))
      \<and> add_profile st (entry P) = Inl (KeyError (JStr ''profiles'')))
   \<and> (\<forall>kv pr. contents st = Doc (JObj kv) \<and> map_of kv ''profiles'' = Some (JObj pr)
        \<and> map_of pr ''list'' = None \<longrightarrow>
      profiles st = Inl (KeyError (JStr ''list''))
      \<and> query st val field = Inl (KeyError (JStr ''list''))
      \<and> remove_profile st val field = Inl (KeyError (JStr ''list''))
      \<and> add_profile st (entry P) = Inl (KeyError (JStr ''list'')))"
proof (intro conjI allI impI)
  assume m: "contents st = Malformed"
  then show d: "data st = Inl JSONDecodeError" by (simp add: data_def)
  then show p: "profiles st = Inl JSONDecodeError" by (simp add: profiles_def)
  from profiles_error [OF p] getitem_entry_commandline
  show "query st val field = Inl JSONDecodeError"
    "remove_profile st val field = Inl JSONDecodeError"
    "add_profile st (entry P) = Inl JSONDecodeError"
    by simp_all
next
  fix kv
  assume "contents st = Doc (JObj kv) \<and> map_of kv ''profiles'' = None"
  then show p: "profiles st = Inl (KeyError (JStr ''profiles''))"
    by (simp add: profiles_def data_def)
  from profiles_error [OF p] getitem_entry_commandline
  show "query st val field = Inl (KeyError (JStr ''profiles''))"
    "remove_profile st val field = Inl (KeyError (JStr ''profiles''))"
    "add_profile st (entry P) = Inl (KeyError (JStr ''profiles''))"
    by simp_all
next
  fix kv pr
  assume "contents st = Doc (JObj kv) \<and> map_of kv ''profiles'' = Some (JObj pr)
        \<and> map_of pr ''list'' = None"
  then show p: "profiles st = Inl (KeyError (JStr ''list''))"
    by (simp add: profiles_def data_def)
  from profiles_error [OF p] getitem_entry_commandline
  show "query st val field = Inl (KeyError (JStr ''list''))"
    "remove_profile st val field = Inl (KeyError (JStr ''list''))"
    "add_profile st (entry P) = Inl (KeyError (JStr ''list''))"
    by simp_all
qed

theorem C8_unreadable_document_witness:
  "query \<lparr>contents = Malformed, writes = 0\<rparr> (JStr ''A'') ''name'' = Inl JSONDecodeError
   \<and> remove_profile \<lparr>contents = Malformed, writes = 0\<rparr> (JStr ''A'') ''name''
       = Inl JSONDecodeError
   \<and> add_profile \<lparr>contents = Malformed, writes = 0\<rparr> (entry profile_C) = Inl JSONDecodeError
   \<and> query \<lparr>contents = Doc (JObj [(''theme'', JStr ''dark'')]), writes = 0\<rparr>
        (JStr ''A'') ''name'' = Inl (KeyError (JStr ''profiles''))
   \<and> add_profile \<lparr>contents = Doc (JObj [(''theme'', JStr ''dark'')]), writes = 0\<rparr>
        (entry profile_C) = Inl (KeyError (JStr ''profiles''))
   \<and> remove_profile \<lparr>contents = Doc (JObj [(''profiles'', JObj [(''defaults'', JObj [])])]),
                       writes = 0\<rparr> (JStr ''A'') ''name'' = Inl (KeyError (JStr ''list''))"
  using
    C8_unreadable_document [of "\<lparr>contents = Malformed, writes = 0\<rparr>" "JStr ''A''" "''name''"
      profile_C]
    C8_unreadable_document [of "\<lparr>contents = Doc (JObj [(''theme'', JStr ''dark'')]), writes = 0\<rparr>"
      "JStr ''A''" "''name''" profile_C]
    C8_unreadable_document [of "\<lparr>contents = Doc (JObj [(''profiles'', JObj [(''defaults'', JObj [])])]),
                       writes = 0\<rparr>" "JStr ''A''" "''name''" profile_C]
  by simp

end
